theory Spec2Isabelle
  imports Main "HOL-Library.Word"
begin

section \<open>Host-side verifier for H-Gate attestation packets and boot images\<close>

text \<open>
  A shallow embedding of \<^verbatim>\<open>tools/verify_attestation.py\<close>. The two functions of the
  script, \<^verbatim>\<open>verify_attestation\<close> and \<^verbatim>\<open>verify_image\<close>, return a \<^verbatim>\<open>bool\<close>, print
  diagnostic lines and let every exception other than \<^verbatim>\<open>BadSignatureError\<close> escape.
  The model makes all three visible: a call takes the lines printed so far and returns
  the outcome (an escaped exception or the returned boolean) with the lines printed
  after it.

  The cryptographic primitives (Ed25519 verification, SHA-256) and the file system are
  not part of the script. They are parameters of the model: every theorem holds for
  any primitive, in particular for the real ones.
\<close>

subsection \<open>Bytes, exceptions, printed lines\<close>

type_synonym byte = "8 word"
type_synonym bytes = "byte list"

text \<open>
  The exceptions a call can meet: \<^verbatim>\<open>ValueError\<close> of \<^verbatim>\<open>bytes.fromhex\<close>,
  \<^verbatim>\<open>nacl.exceptions.ValueError\<close> (wrong key or signature length),
  \<^verbatim>\<open>nacl.exceptions.BadSignatureError\<close>, \<^verbatim>\<open>struct.error\<close> and the \<^verbatim>\<open>OSError\<close> of
  \<^verbatim>\<open>open\<close>.
\<close>

datatype py_exn =
    ValueError
  | NaClValueError
  | BadSignatureError
  | StructError
  | OSError

text \<open>
  One constructor for each \<^verbatim>\<open>print\<close> statement of the script, with the values its
  format string interpolates:
  \<^item> \<open>AttestTooShort\<close>: "Attestation packet too short."
  \<^item> \<open>AttestValid\<close>: "Attestation Valid"
  \<^item> \<open>CounterLine c\<close>: "   Counter : c"
  \<^item> \<open>PCRLine h\<close>: "   PCR     : h"
  \<^item> \<open>AttestSigMismatch\<close>: "CRITICAL: Attestation signature mismatch. H-Gate trust broken."
  \<^item> \<open>ImageHeaderTooShort\<close>: "Image header too short."
  \<^item> \<open>BadMagic m\<close>: "Bad magic: m"
  \<^item> \<open>PayloadHashMismatch\<close>: "Payload hash mismatch."
  \<^item> \<open>ImageVerified p\<close>: "Image Verified: p"
  \<^item> \<open>PayloadSHA h\<close>: "   Payload SHA-256: h"
  \<^item> \<open>ImageSigInvalid p\<close>: "Image signature invalid: p"
\<close>

datatype line =
    AttestTooShort
  | AttestValid
  | CounterLine nat
  | PCRLine string
  | AttestSigMismatch
  | ImageHeaderTooShort
  | BadMagic bytes
  | PayloadHashMismatch
  | ImageVerified string
  | PayloadSHA string
  | ImageSigInvalid string

type_synonym stdout = "line list"

type_synonym 'a outcome = "(py_exn + 'a) \<times> stdout"

definition print :: "line \<Rightarrow> stdout \<Rightarrow> stdout" where
  "print l out = out @ [l]"

subsection \<open>Python built-ins used by the script\<close>

text \<open>\<^verbatim>\<open>xs[i:j]\<close> for literal bounds \<open>0 \<le> i \<le> j\<close>: clamped at the end of \<open>xs\<close>.\<close>

definition py_slice :: "'a list \<Rightarrow> nat \<Rightarrow> nat \<Rightarrow> 'a list" where
  "py_slice xs i j = take (j - i) (drop i xs)"

text \<open>
  \<^verbatim>\<open>bytes.fromhex\<close>: two hexadecimal digits per byte, ASCII whitespace between bytes
  skipped, \<^verbatim>\<open>ValueError\<close> on anything else (also on a lone last digit). Characters are
  8-bit here; Python's code points beyond that are no hexadecimal digits either.
\<close>

definition isspace :: "char \<Rightarrow> bool" where
  "isspace c = (of_char c \<in> {9, 10, 11, 12, 13, 32 :: nat})"

definition hex_digit_value :: "char \<Rightarrow> nat option" where
  "hex_digit_value c =
     (let n = (of_char c :: nat) in
      if 48 \<le> n \<and> n \<le> 57 then Some (n - 48)
      else if 97 \<le> n \<and> n \<le> 102 then Some (n - 87)
      else if 65 \<le> n \<and> n \<le> 70 then Some (n - 55)
      else None)"

fun fromhex :: "string \<Rightarrow> py_exn + bytes" where
  "fromhex [] = Inr []"
| "fromhex [c] = (if isspace c then Inr [] else Inl ValueError)"
| "fromhex (c # d # cs) =
     (if isspace c then fromhex (d # cs)
      else (case (hex_digit_value c, hex_digit_value d) of
              (Some t, Some b) \<Rightarrow>
                (case fromhex cs of
                   Inl e \<Rightarrow> Inl e
                 | Inr bs \<Rightarrow> Inr (of_nat (16 * t + b) # bs))
            | _ \<Rightarrow> Inl ValueError))"

text \<open>\<^verbatim>\<open>bytes.hex\<close>: two lower-case hexadecimal digits per byte.\<close>

definition hex_char :: "nat \<Rightarrow> char" where
  "hex_char n = ''0123456789abcdef'' ! n"

definition hex :: "bytes \<Rightarrow> string" where
  "hex bs = concat (map (\<lambda>b. [hex_char (unat b div 16), hex_char (unat b mod 16)]) bs)"

text \<open>
  \<^verbatim>\<open>struct.unpack_from("<Q", buf, off)[0]\<close>: the unsigned little-endian integer of the
  8 bytes at \<open>off\<close>; \<^verbatim>\<open>struct.error\<close> when fewer than 8 bytes are left.
\<close>

fun le_value :: "bytes \<Rightarrow> nat" where
  "le_value [] = 0"
| "le_value (b # bs) = unat b + 256 * le_value bs"

definition unpack_from_Q :: "bytes \<Rightarrow> nat \<Rightarrow> py_exn + nat" where
  "unpack_from_Q buf off =
     (if length buf < off + 8 then Inl StructError
      else Inr (le_value (take 8 (drop off buf))))"

text \<open>
  \<^verbatim>\<open>open(path, "rb")\<close> on a file system given as a map from paths to contents:
  \<^verbatim>\<open>OSError\<close> when there is no such file.
\<close>

type_synonym filesystem = "string \<rightharpoonup> bytes"

definition open_rb :: "filesystem \<Rightarrow> string \<Rightarrow> py_exn + bytes" where
  "open_rb fs path = (case fs path of None \<Rightarrow> Inl OSError | Some contents \<Rightarrow> Inr contents)"

subsection \<open>The signing library\<close>

text \<open>
  \<^verbatim>\<open>nacl.signing.VerifyKey\<close> is PyNaCl's, not the script's. Its constructor refuses a
  key that is not 32 bytes long with \<^verbatim>\<open>nacl.exceptions.ValueError\<close>; its \<^verbatim>\<open>verify\<close>
  refuses a detached signature that is not 64 bytes long with the same exception, raises
  \<^verbatim>\<open>BadSignatureError\<close> when the Ed25519 check fails and returns the message otherwise.
  The Ed25519 check itself is the parameter \<open>ed\<close>: \<open>ed key message signature\<close>.
\<close>

type_synonym ed25519 = "bytes \<Rightarrow> bytes \<Rightarrow> bytes \<Rightarrow> bool"

type_synonym sha256 = "bytes \<Rightarrow> bytes"

datatype verify_key = VerifyKey bytes

definition VerifyKey_init :: "bytes \<Rightarrow> py_exn + verify_key" where
  "VerifyKey_init key =
     (if length key \<noteq> 32 then Inl NaClValueError else Inr (VerifyKey key))"

fun VerifyKey_verify :: "ed25519 \<Rightarrow> verify_key \<Rightarrow> bytes \<Rightarrow> bytes \<Rightarrow> py_exn + bytes" where
  "VerifyKey_verify ed (VerifyKey key) smessage signature =
     (if length signature \<noteq> 64 then Inl NaClValueError
      else if ed key smessage signature then Inr smessage
      else Inl BadSignatureError)"

subsection \<open>\<^verbatim>\<open>verify_attestation\<close>\<close>

text \<open>
  The body of the \<^verbatim>\<open>try\<close> block: the signature is checked first, then the length of
  the packet, then counter and PCR are parsed and printed.
\<close>

definition attestation_try :: "ed25519 \<Rightarrow> verify_key \<Rightarrow> bytes \<Rightarrow> bytes \<Rightarrow> stdout \<Rightarrow> bool outcome" where
  "attestation_try ed vk packet sig out =
     (case VerifyKey_verify ed vk packet sig of
        Inl e \<Rightarrow> (Inl e, out)
      | Inr _ \<Rightarrow>
          if length packet < 40 then (Inr False, print AttestTooShort out)
          else (case unpack_from_Q packet 0 of
                  Inl e \<Rightarrow> (Inl e, out)
                | Inr counter \<Rightarrow>
                    let pcr = hex (py_slice packet 8 40);
                        out1 = print AttestValid out;
                        out2 = print (CounterLine counter) out1;
                        out3 = print (PCRLine pcr) out2
                    in (Inr True, out3)))"

text \<open>
  The whole function: the key is decoded and the \<^verbatim>\<open>VerifyKey\<close> built outside the
  \<^verbatim>\<open>try\<close>; the \<^verbatim>\<open>except\<close> clause catches \<^verbatim>\<open>BadSignatureError\<close> only.
\<close>

definition verify_attestation :: "ed25519 \<Rightarrow> string \<Rightarrow> bytes \<Rightarrow> bytes \<Rightarrow> stdout \<Rightarrow> bool outcome" where
  "verify_attestation ed pubkey_hex packet sig out =
     (case fromhex pubkey_hex of
        Inl e \<Rightarrow> (Inl e, out)
      | Inr key \<Rightarrow>
          (case VerifyKey_init key of
             Inl e \<Rightarrow> (Inl e, out)
           | Inr vk \<Rightarrow>
               (case attestation_try ed vk packet sig out of
                  (Inl e, out') \<Rightarrow>
                    if e = BadSignatureError then (Inr False, print AttestSigMismatch out')
                    else (Inl e, out')
                | (Inr b, out') \<Rightarrow> (Inr b, out'))))"

subsection \<open>\<^verbatim>\<open>verify_image\<close>\<close>

definition HGAT :: bytes where
  "HGAT = [0x48, 0x47, 0x41, 0x54]"

text \<open>
  The header is the first 100 bytes of the file (fewer when the file is shorter), the
  payload whatever follows. The key is decoded only after the hash comparison.
\<close>

definition verify_image :: "ed25519 \<Rightarrow> sha256 \<Rightarrow> filesystem \<Rightarrow> string \<Rightarrow> string \<Rightarrow> stdout \<Rightarrow> bool outcome" where
  "verify_image ed sha fs pubkey_hex image_path out =
     (case open_rb fs image_path of
        Inl e \<Rightarrow> (Inl e, out)
      | Inr contents \<Rightarrow>
          let header = take (4 + 64 + 32) contents in
          if length header < 100 then (Inr False, print ImageHeaderTooShort out)
          else
            let magic = py_slice header 0 4 in
            if magic \<noteq> HGAT then (Inr False, print (BadMagic magic) out)
            else
              let sig = py_slice header 4 68;
                  payload_hash = py_slice header 68 100;
                  payload = drop (length header) contents;
                  computed = sha payload
              in
              if computed \<noteq> payload_hash then (Inr False, print PayloadHashMismatch out)
              else
                (case fromhex pubkey_hex of
                   Inl e \<Rightarrow> (Inl e, out)
                 | Inr key \<Rightarrow>
                     (case VerifyKey_init key of
                        Inl e \<Rightarrow> (Inl e, out)
                      | Inr vk \<Rightarrow>
                          (case VerifyKey_verify ed vk payload_hash sig of
                             Inr _ \<Rightarrow>
                               (Inr True,
                                print (PayloadSHA (hex computed)) (print (ImageVerified image_path) out))
                           | Inl e \<Rightarrow>
                               if e = BadSignatureError
                               then (Inr False, print (ImageSigInvalid image_path) out)
                               else (Inl e, out)))))"

subsection \<open>Test instances of the parameters\<close>

text \<open>
  A stand-in signature scheme and digest, small enough to compute with: the signature of
  a message is 64 copies of the byte sum of key and message, the digest 32 copies of the
  byte sum of the payload. The private key of a public key is the key itself. They
  instantiate the theorems at concrete packets and images.
\<close>

definition demo_sign :: "bytes \<Rightarrow> bytes \<Rightarrow> bytes" where
  "demo_sign key m = replicate 64 (sum_list (key @ m))"

definition demo_ed :: ed25519 where
  "demo_ed key m s = (s = demo_sign key m)"

definition demo_sha :: sha256 where
  "demo_sha m = replicate 32 (sum_list m)"

definition demo_key_hex :: string where
  "demo_key_hex = concat (replicate 16 ''0a1B'')"

definition demo_key :: bytes where
  "demo_key = concat (replicate 16 [0x0A, 0x1B])"

text \<open>A key of two bytes only.\<close>

definition short_key_hex :: string where
  "short_key_hex = ''0a1B''"

definition short_key :: bytes where
  "short_key = [0x0A, 0x1B]"

text \<open>The packet of the specification's scenario: counter 5, PCR 32 bytes of \<open>0xAA\<close>.\<close>

definition demo_packet :: bytes where
  "demo_packet = [5, 0, 0, 0, 0, 0, 0, 0] @ replicate 32 0xAA"

text \<open>An older packet of the same device: counter 3.\<close>

definition older_packet :: bytes where
  "older_packet = [3, 0, 0, 0, 0, 0, 0, 0] @ replicate 32 0xAA"

definition short_packet :: bytes where
  "short_packet = [5, 0, 0, 0, 0, 0, 0, 0]"

definition zero_sig :: bytes where
  "zero_sig = replicate 64 0"

definition demo_payload :: bytes where
  "demo_payload = [1, 2, 3]"

text \<open>
  \<^verbatim>\<open>magic + signature + hash + payload\<close>: a compliant image of \<open>demo_payload\<close>; the same
  header in front of another payload; a header with the empty payload; a file that stops
  inside the header; and 100 bytes that do not start with the magic.
\<close>

definition demo_image :: bytes where
  "demo_image =
     HGAT @ demo_sign demo_key (demo_sha demo_payload) @ demo_sha demo_payload @ demo_payload"

definition tampered_image :: bytes where
  "tampered_image =
     HGAT @ demo_sign demo_key (demo_sha demo_payload) @ demo_sha demo_payload @ [9, 9, 9]"

definition header_only_image :: bytes where
  "header_only_image = HGAT @ demo_sign demo_key (demo_sha []) @ demo_sha []"

definition truncated_image :: bytes where
  "truncated_image = HGAT @ replicate 64 0"

definition bad_magic_image :: bytes where
  "bad_magic_image = replicate 100 0"

definition single_file :: "string \<Rightarrow> bytes \<Rightarrow> filesystem" where
  "single_file path contents = (\<lambda>p. if p = path then Some contents else None)"

subsection \<open>Basic facts\<close>

lemma fromhex_demo_key: "fromhex demo_key_hex = Inr demo_key"
  by code_simp

lemma length_demo_key: "length demo_key = 32"
  by code_simp

lemma length_demo_sign: "length (demo_sign key m) = 64"
  by (simp add: demo_sign_def)

lemma length_demo_sha: "length (demo_sha m) = 32"
  by (simp add: demo_sha_def)

lemma demo_ed_sign: "demo_ed key m (demo_sign key m)"
  by (simp add: demo_ed_def)

lemma verify_attestation_eq:
  "verify_attestation ed pubkey_hex packet sig out =
     (case fromhex pubkey_hex of
        Inl e \<Rightarrow> (Inl e, out)
      | Inr key \<Rightarrow>
          if length key \<noteq> 32 \<or> length sig \<noteq> 64 then (Inl NaClValueError, out)
          else if \<not> ed key packet sig then (Inr False, out @ [AttestSigMismatch])
          else if length packet < 40 then (Inr False, out @ [AttestTooShort])
          else (Inr True, out @ [AttestValid, CounterLine (le_value (take 8 packet)),
                                 PCRLine (hex (py_slice packet 8 40))]))"
  by (simp add: verify_attestation_def attestation_try_def VerifyKey_init_def
      unpack_from_Q_def print_def Let_def split: sum.splits)

lemma le_value_sum: "le_value xs = (\<Sum>i<length xs. unat (xs ! i) * 256 ^ i)"
proof (induction xs)
  case Nil
  then show ?case by simp
next
  case (Cons b bs)
  have "(\<Sum>i<Suc (length bs). unat ((b # bs) ! i) * 256 ^ i)
        = unat b + (\<Sum>i<length bs. unat (bs ! i) * 256 ^ Suc i)"
    by (subst sum.lessThan_Suc_shift) simp
  also have "\<dots> = unat b + 256 * (\<Sum>i<length bs. unat (bs ! i) * 256 ^ i)"
    by (simp add: sum_distrib_left mult.assoc mult.left_commute)
  finally show ?case using Cons.IH by simp
qed

lemma le_value_take8:
  assumes "8 \<le> length packet"
  shows "le_value (take 8 packet) = (\<Sum>i<8. unat (packet ! i) * 256 ^ i)"
  using assms by (simp add: le_value_sum min_absorb2)

lemma le_value_bound: "le_value xs < 256 ^ length xs"
proof (induction xs)
  case Nil
  then show ?case by simp
next
  case (Cons b bs)
  have "unat b < 256" using unsigned_less [of b] by simp
  moreover have "le_value bs + 1 \<le> 256 ^ length bs" using Cons.IH by simp
  then have "256 * (le_value bs + 1) \<le> 256 * 256 ^ length bs" by (rule mult_le_mono2)
  ultimately show ?case by simp
qed

lemma py_slice_nth:
  assumes "j \<le> length xs"
  shows "py_slice xs i j = map (\<lambda>k. xs ! k) [i..<j]"
  using assms by (auto simp: py_slice_def intro!: nth_equalityI)

lemma demo_packet_counter: "le_value (take 8 demo_packet) = 5"
  by code_simp

lemma demo_packet_pcr: "hex (py_slice demo_packet 8 40) = replicate 64 (CHR ''a'')"
  by code_simp

lemma length_demo_packet: "length demo_packet = 40"
  by (simp add: demo_packet_def)

lemma length_short_packet: "length short_packet = 8"
  by (simp add: short_packet_def)

lemma length_zero_sig: "length zero_sig = 64"
  by (simp add: zero_sig_def)

lemma length_older_packet: "length older_packet = 40"
  by (simp add: older_packet_def)

lemma zero_sig_invalid_short: "\<not> demo_ed demo_key short_packet zero_sig"
  by code_simp

lemma zero_sig_invalid: "\<not> demo_ed demo_key demo_packet zero_sig"
  by code_simp

lemma fromhex_short_key: "fromhex short_key_hex = Inr short_key"
  by code_simp

lemma length_short_key: "length short_key = 2"
  by (simp add: short_key_def)

lemma length_HGAT: "length HGAT = 4"
  by (simp add: HGAT_def)

lemma verify_image_eq:
  assumes "fs image_path = Some img"
  shows "verify_image ed sha fs pubkey_hex image_path out =
     (if length img < 100 then (Inr False, out @ [ImageHeaderTooShort])
      else if take 4 img \<noteq> HGAT then (Inr False, out @ [BadMagic (take 4 img)])
      else if sha (drop 100 img) \<noteq> py_slice img 68 100
        then (Inr False, out @ [PayloadHashMismatch])
      else (case fromhex pubkey_hex of
              Inl e \<Rightarrow> (Inl e, out)
            | Inr key \<Rightarrow>
                if length key \<noteq> 32 then (Inl NaClValueError, out)
                else if ed key (py_slice img 68 100) (py_slice img 4 68)
                  then (Inr True, out @ [ImageVerified image_path,
                                         PayloadSHA (hex (sha (drop 100 img)))])
                  else (Inr False, out @ [ImageSigInvalid image_path])))"
proof (cases "length img < 100")
  case True
  with assms show ?thesis
    by (simp add: verify_image_def open_rb_def print_def)
next
  case False
  then have len: "100 \<le> length img" by simp
  then have header: "length (take 100 img) = 100"
    by simp
  have magic: "py_slice (take 100 img) 0 4 = take 4 img"
    by (simp add: py_slice_def min_def)
  have sig: "py_slice (take 100 img) 4 68 = py_slice img 4 68"
    by (simp add: py_slice_def take_drop min_def)
  have hash: "py_slice (take 100 img) 68 100 = py_slice img 68 100"
    using len by (simp add: py_slice_def drop_take)
  have siglen: "length (py_slice img 4 68) = 64"
    using len by (simp add: py_slice_def)
  show ?thesis
    using assms False header
    by (simp add: verify_image_def open_rb_def print_def Let_def magic sig hash siglen
        VerifyKey_init_def split: sum.splits)
qed

lemma image_layout:
  assumes "length sg = 64" and "length h = 32"
  shows "take 4 (HGAT @ sg @ h @ p) = HGAT"
    and "py_slice (HGAT @ sg @ h @ p) 4 68 = sg"
    and "py_slice (HGAT @ sg @ h @ p) 68 100 = h"
    and "drop 100 (HGAT @ sg @ h @ p) = p"
    and "length (HGAT @ sg @ h @ p) = 100 + length p"
  using assms by (simp_all add: py_slice_def length_HGAT)

lemma single_file_same: "single_file path contents path = Some contents"
  by (simp add: single_file_def)

lemma demo_sha_tampered: "demo_sha [9, 9, 9] \<noteq> demo_sha demo_payload"
  by code_simp

lemma length_truncated_image: "length truncated_image = 68"
  by (simp add: truncated_image_def length_HGAT)

lemma length_bad_magic_image: "length bad_magic_image = 100"
  by (simp add: bad_magic_image_def)

lemma zeros_not_HGAT: "[0, 0, 0, 0] \<noteq> HGAT"
  by (simp add: HGAT_def)

lemma bad_magic_image_take: "take 4 bad_magic_image = [0, 0, 0, 0]"
  by code_simp

subsection \<open>Accepted attestations\<close>

text \<open>
  Claim C4. A packet of at least 40 bytes whose Ed25519 signature under the given
  32-byte key is valid is accepted, whatever its counter: the call returns \<open>True\<close> and
  reports the counter, which is the unsigned little-endian 64-bit integer of bytes 0 to
  7, and the PCR, which is the hexadecimal text of bytes 8 to 39. No exception escapes.
\<close>

theorem verify_attestation_valid:
  assumes "fromhex pubkey_hex = Inr key" and "length key = 32" and "length sig = 64"
    and "ed key packet sig" and "40 \<le> length packet"
  shows "verify_attestation ed pubkey_hex packet sig out =
           (Inr True, out @ [AttestValid,
                             CounterLine (\<Sum>i<8. unat (packet ! i) * 256 ^ i),
                             PCRLine (hex (map (\<lambda>k. packet ! k) [8..<40]))])
         \<and> (\<Sum>i<8. unat (packet ! i) * 256 ^ i) < 2 ^ 64"
proof -
  have counter: "le_value (take 8 packet) = (\<Sum>i<8. unat (packet ! i) * 256 ^ i)"
    using assms(5) by (simp add: le_value_take8)
  have pcr: "py_slice packet 8 40 = map (\<lambda>k. packet ! k) [8..<40]"
    using assms(5) by (rule py_slice_nth)
  have "le_value (take 8 packet) < 256 ^ length (take 8 packet)"
    by (rule le_value_bound)
  then have bound: "le_value (take 8 packet) < 2 ^ 64"
    using assms(5) by (simp add: min_absorb2)
  have "verify_attestation ed pubkey_hex packet sig out =
          (Inr True, out @ [AttestValid, CounterLine (le_value (take 8 packet)),
                            PCRLine (hex (py_slice packet 8 40))])"
    using assms by (simp add: verify_attestation_eq)
  with counter pcr bound show ?thesis by simp
qed

text \<open>
  The scenario of the specification: counter 5, PCR 32 bytes of \<open>0xAA\<close>, correctly
  signed, gives \<open>True\<close>, counter 5 and PCR \<open>aa...aa\<close>.
\<close>

theorem verify_attestation_valid_witness:
  "fromhex demo_key_hex = Inr demo_key \<and> length demo_key = 32
   \<and> length (demo_sign demo_key demo_packet) = 64
   \<and> demo_ed demo_key demo_packet (demo_sign demo_key demo_packet)
   \<and> 40 \<le> length demo_packet
   \<and> verify_attestation demo_ed demo_key_hex demo_packet (demo_sign demo_key demo_packet) [] =
       (Inr True, [AttestValid, CounterLine 5, PCRLine (replicate 64 (CHR ''a''))])"
proof -
  have len: "40 \<le> length demo_packet"
    by (simp add: length_demo_packet)
  have counter: "(\<Sum>i<8. unat (demo_packet ! i) * 256 ^ i) = 5"
    using le_value_take8 [of demo_packet] demo_packet_counter len by simp
  have pcr: "hex (map (\<lambda>k. demo_packet ! k) [8..<40]) = replicate 64 (CHR ''a'')"
    using py_slice_nth [of 40 demo_packet 8] demo_packet_pcr len by simp
  show ?thesis
    using verify_attestation_valid [where pubkey_hex = demo_key_hex and key = demo_key
        and ed = demo_ed and packet = demo_packet
        and sig = "demo_sign demo_key demo_packet" and out = "[]"] counter pcr
    by (simp add: fromhex_demo_key length_demo_key length_demo_sign demo_ed_sign len)
qed

subsection \<open>Rejected signatures\<close>

text \<open>
  Claim C5. A packet of at least 40 bytes whose 64-byte signature fails the Ed25519
  check under the given 32-byte key is rejected as a signature mismatch: the call
  returns \<open>False\<close> and prints the line of the \<^verbatim>\<open>except BadSignatureError\<close> clause.
  A caller can tell this failure from every other one: for any arguments at all, that
  outcome occurs exactly when the signature is well-formed and cryptographically
  invalid; and for a packet of at least 40 bytes the returned \<open>False\<close> alone already
  means it.
\<close>

theorem verify_attestation_signature_mismatch:
  assumes "40 \<le> length packet"
    and "fromhex pubkey_hex = Inr key" and "length key = 32" and "length sig = 64"
    and "\<not> ed key packet sig"
  shows "verify_attestation ed pubkey_hex packet sig out = (Inr False, out @ [AttestSigMismatch])
    \<and> (verify_attestation ed pubkey_hex' packet' sig' out' = (Inr False, out' @ [AttestSigMismatch])
        \<longleftrightarrow> (\<exists>key'. fromhex pubkey_hex' = Inr key' \<and> length key' = 32 \<and> length sig' = 64
                  \<and> \<not> ed key' packet' sig'))
    \<and> (fst (verify_attestation ed pubkey_hex' packet sig' out') = Inr False
        \<longleftrightarrow> (\<exists>key'. fromhex pubkey_hex' = Inr key' \<and> length key' = 32 \<and> length sig' = 64
                  \<and> \<not> ed key' packet sig'))"
proof -
  have "verify_attestation ed pubkey_hex packet sig out = (Inr False, out @ [AttestSigMismatch])"
    using assms by (simp add: verify_attestation_eq)
  moreover have "verify_attestation ed pubkey_hex' packet' sig' out' =
        (Inr False, out' @ [AttestSigMismatch])
      \<longleftrightarrow> (\<exists>key'. fromhex pubkey_hex' = Inr key' \<and> length key' = 32 \<and> length sig' = 64
                \<and> \<not> ed key' packet' sig')"
    by (cases "fromhex pubkey_hex'") (auto simp: verify_attestation_eq)
  moreover have "fst (verify_attestation ed pubkey_hex' packet sig' out') = Inr False
      \<longleftrightarrow> (\<exists>key'. fromhex pubkey_hex' = Inr key' \<and> length key' = 32 \<and> length sig' = 64
                \<and> \<not> ed key' packet sig')"
    using assms(1) by (cases "fromhex pubkey_hex'") (auto simp: verify_attestation_eq)
  ultimately show ?thesis by simp
qed

text \<open>
  A 64-byte signature of zeros over the scenario's packet.
\<close>

theorem verify_attestation_signature_mismatch_witness:
  "40 \<le> length demo_packet \<and> fromhex demo_key_hex = Inr demo_key \<and> length demo_key = 32
   \<and> length zero_sig = 64 \<and> \<not> demo_ed demo_key demo_packet zero_sig
   \<and> verify_attestation demo_ed demo_key_hex demo_packet zero_sig [] =
       (Inr False, [AttestSigMismatch])"
  using verify_attestation_signature_mismatch [where packet = demo_packet
      and pubkey_hex = demo_key_hex and key = demo_key and sig = zero_sig
      and ed = demo_ed and out = "[]"]
  by (simp add: fromhex_demo_key length_demo_key length_demo_packet length_zero_sig
      zero_sig_invalid)

subsection \<open>Short packets\<close>

text \<open>
  Claim C2 says a packet shorter than 40 bytes fails as truncated with no signature
  check, whatever the signature. The script checks the signature first: an 8-byte packet
  with an invalid signature is reported as a signature mismatch, not as too short; only
  with a valid signature is it reported as too short.
\<close>

theorem short_packet_invalid_signature_counterexample:
  "length short_packet < 40
   \<and> verify_attestation demo_ed demo_key_hex short_packet zero_sig [] =
       (Inr False, [AttestSigMismatch])
   \<and> verify_attestation demo_ed demo_key_hex short_packet zero_sig [] \<noteq>
       (Inr False, [AttestTooShort])
   \<and> verify_attestation demo_ed demo_key_hex short_packet (demo_sign demo_key short_packet) [] =
       (Inr False, [AttestTooShort])"
  by (simp add: verify_attestation_eq fromhex_demo_key length_demo_key length_demo_sign
      demo_ed_sign length_short_packet length_zero_sig zero_sig_invalid_short)

text \<open>
  Claim C2, amended. For every 32-byte public key and 64-byte signature, a packet
  shorter than 40 bytes makes the call return \<open>False\<close>, whether the signature is valid or
  not; the signature is checked first, so the failure is reported as a too-short packet
  when the signature is valid and as a signature mismatch when it is not.
\<close>

theorem verify_attestation_short_packet:
  assumes "length packet < 40"
    and "fromhex pubkey_hex = Inr key" and "length key = 32" and "length sig = 64"
  shows "verify_attestation ed pubkey_hex packet sig out =
           (Inr False, out @ [if ed key packet sig then AttestTooShort else AttestSigMismatch])"
  using assms by (simp add: verify_attestation_eq)

theorem verify_attestation_short_packet_witness:
  "length short_packet < 40 \<and> fromhex demo_key_hex = Inr demo_key \<and> length demo_key = 32
   \<and> length zero_sig = 64 \<and> \<not> demo_ed demo_key short_packet zero_sig
   \<and> verify_attestation demo_ed demo_key_hex short_packet zero_sig [] =
       (Inr False, [AttestSigMismatch])"
  using verify_attestation_short_packet [where packet = short_packet
      and pubkey_hex = demo_key_hex and key = demo_key and sig = zero_sig
      and ed = demo_ed and out = "[]"]
  by (simp add: fromhex_demo_key length_demo_key length_short_packet length_zero_sig
      zero_sig_invalid_short)

subsection \<open>Malformed keys and signatures\<close>

text \<open>
  Claim C3 says a key that is not 32 bytes or a signature that is not 64 bytes gives a
  tagged result and never a thrown fault. In the script the library's \<^verbatim>\<open>ValueError\<close>
  escapes: \<^verbatim>\<open>verify_attestation\<close> catches \<^verbatim>\<open>BadSignatureError\<close> only. Here a 2-byte
  key, and an empty signature under a good key.
\<close>

theorem malformed_key_raises_counterexample:
  "fromhex short_key_hex = Inr short_key \<and> length short_key = 2
   \<and> verify_attestation demo_ed short_key_hex demo_packet zero_sig [] = (Inl NaClValueError, [])
   \<and> verify_attestation demo_ed demo_key_hex demo_packet [] [] = (Inl NaClValueError, [])"
  by (simp add: verify_attestation_eq fromhex_short_key length_short_key fromhex_demo_key
      length_demo_key)

text \<open>
  Claim C3, amended. For every input whose decoded public key is not exactly 32 bytes
  or whose signature is not exactly 64 bytes, the call fails by raising the signing
  library's \<^verbatim>\<open>ValueError\<close>, which escapes the function; it returns neither \<open>False\<close>
  nor \<open>True\<close> and prints nothing.
\<close>

theorem verify_attestation_malformed:
  assumes "fromhex pubkey_hex = Inr key" and "length key \<noteq> 32 \<or> length sig \<noteq> 64"
  shows "verify_attestation ed pubkey_hex packet sig out = (Inl NaClValueError, out)"
  using assms by (auto simp: verify_attestation_eq)

theorem verify_attestation_malformed_witness:
  "fromhex short_key_hex = Inr short_key \<and> length short_key \<noteq> 32
   \<and> verify_attestation demo_ed short_key_hex demo_packet zero_sig [] = (Inl NaClValueError, [])"
  using verify_attestation_malformed [where pubkey_hex = short_key_hex and key = short_key
      and sig = zero_sig and ed = demo_ed and packet = demo_packet and out = "[]"]
  by (simp add: fromhex_short_key length_short_key)

subsection \<open>No memory of earlier calls\<close>

text \<open>
  Claim C1 asks for a counter store: a packet whose counter is not above the last
  accepted one must be rejected, a replay in particular. The script keeps no counter.
  The scenario's packet is accepted, accepted again when replayed after that call, and
  an older packet (counter 3) is accepted after it as well.
\<close>

theorem verify_attestation_accepts_replay:
  "verify_attestation demo_ed demo_key_hex demo_packet (demo_sign demo_key demo_packet) [] =
     (Inr True, [AttestValid, CounterLine 5, PCRLine (replicate 64 (CHR ''a''))])
   \<and> verify_attestation demo_ed demo_key_hex demo_packet (demo_sign demo_key demo_packet)
       [AttestValid, CounterLine 5, PCRLine (replicate 64 (CHR ''a''))] =
     (Inr True, [AttestValid, CounterLine 5, PCRLine (replicate 64 (CHR ''a'')),
                 AttestValid, CounterLine 5, PCRLine (replicate 64 (CHR ''a''))])
   \<and> fst (verify_attestation demo_ed demo_key_hex older_packet (demo_sign demo_key older_packet)
       [AttestValid, CounterLine 5, PCRLine (replicate 64 (CHR ''a''))]) = Inr True"
  by (simp add: verify_attestation_eq fromhex_demo_key length_demo_key length_demo_sign
      demo_ed_sign length_demo_packet length_older_packet demo_packet_counter demo_packet_pcr)



subsection \<open>Boot images: the order of the structural checks\<close>

text \<open>
  Claim C8. A file whose header is shorter than 100 bytes is rejected as a truncated
  header; otherwise a file whose first 4 bytes are not \<open>HGAT\<close> is rejected as bad magic.
  Both hold for every digest function, every signature check and every key text, also a
  malformed one: neither the hash nor the signature is looked at before.
\<close>

theorem verify_image_structure_order:
  assumes "fs image_path = Some img"
  shows "(length (take 100 img) < 100 \<longrightarrow>
            verify_image ed sha fs pubkey_hex image_path out =
              (Inr False, out @ [ImageHeaderTooShort]))
    \<and> (\<not> length (take 100 img) < 100 \<and> take 4 img \<noteq> HGAT \<longrightarrow>
            verify_image ed sha fs pubkey_hex image_path out =
              (Inr False, out @ [BadMagic (take 4 img)]))"
  using assms by (auto simp: verify_image_eq [where img = img])

theorem verify_image_structure_order_witness:
  "single_file ''boot.img'' truncated_image ''boot.img'' = Some truncated_image
   \<and> length (take 100 truncated_image) < 100
   \<and> verify_image demo_ed demo_sha (single_file ''boot.img'' truncated_image) demo_key_hex
         ''boot.img'' [] = (Inr False, [ImageHeaderTooShort])
   \<and> single_file ''boot.img'' bad_magic_image ''boot.img'' = Some bad_magic_image
   \<and> \<not> length (take 100 bad_magic_image) < 100
   \<and> take 4 bad_magic_image \<noteq> HGAT
   \<and> verify_image demo_ed demo_sha (single_file ''boot.img'' bad_magic_image) demo_key_hex
         ''boot.img'' [] = (Inr False, [BadMagic [0, 0, 0, 0]])"
  using verify_image_structure_order [where fs = "single_file ''boot.img'' truncated_image"
      and image_path = "''boot.img''" and img = truncated_image and sha = demo_sha
      and ed = demo_ed and pubkey_hex = demo_key_hex and out = "[]"]
    verify_image_structure_order [where fs = "single_file ''boot.img'' bad_magic_image"
      and image_path = "''boot.img''" and img = bad_magic_image and sha = demo_sha
      and ed = demo_ed and pubkey_hex = demo_key_hex and out = "[]"]
  by (simp add: single_file_same length_truncated_image length_bad_magic_image
      bad_magic_image_take zeros_not_HGAT)

subsection \<open>Boot images: the hash comes before the signature\<close>

text \<open>
  Claim C7. For an image with a full header and the right magic, a payload whose
  digest differs from the hash stored in the header is rejected as a payload hash
  mismatch, for every key text and every signature check, so also when the signature
  over the stated hash is valid. The image is accepted exactly when the digest matches
  and the signature verifies over the stored hash (bytes 68 to 99), not over the
  payload.
\<close>

theorem verify_image_hash_mismatch:
  assumes "fs image_path = Some img" and "100 \<le> length img" and "take 4 img = HGAT"
  shows "(sha (drop 100 img) \<noteq> py_slice img 68 100 \<longrightarrow>
            verify_image ed sha fs pubkey_hex image_path out =
              (Inr False, out @ [PayloadHashMismatch]))
    \<and> (fst (verify_image ed sha fs pubkey_hex image_path out) = Inr True \<longleftrightarrow>
          sha (drop 100 img) = py_slice img 68 100
          \<and> (\<exists>key. fromhex pubkey_hex = Inr key \<and> length key = 32
                \<and> ed key (py_slice img 68 100) (py_slice img 4 68)))"
  using assms
  by (cases "fromhex pubkey_hex") (auto simp: verify_image_eq [where img = img])

text \<open>
  A validly signed header in front of another payload.
\<close>

theorem verify_image_hash_mismatch_witness:
  "single_file ''boot.img'' tampered_image ''boot.img'' = Some tampered_image
   \<and> 100 \<le> length tampered_image \<and> take 4 tampered_image = HGAT
   \<and> demo_sha (drop 100 tampered_image) \<noteq> py_slice tampered_image 68 100
   \<and> demo_ed demo_key (py_slice tampered_image 68 100) (py_slice tampered_image 4 68)
   \<and> verify_image demo_ed demo_sha (single_file ''boot.img'' tampered_image) demo_key_hex
         ''boot.img'' [] = (Inr False, [PayloadHashMismatch])"
proof -
  have layout:
    "take 4 tampered_image = HGAT"
    "py_slice tampered_image 4 68 = demo_sign demo_key (demo_sha demo_payload)"
    "py_slice tampered_image 68 100 = demo_sha demo_payload"
    "drop 100 tampered_image = [9, 9, 9]"
    "length tampered_image = 103"
    using image_layout [OF length_demo_sign length_demo_sha,
        of demo_key "demo_sha demo_payload" demo_payload "[9, 9, 9]"]
    by (simp_all add: tampered_image_def)
  show ?thesis
    using verify_image_hash_mismatch [where fs = "single_file ''boot.img'' tampered_image"
        and image_path = "''boot.img''" and img = tampered_image and sha = demo_sha
        and ed = demo_ed and pubkey_hex = demo_key_hex and out = "[]"]
    by (simp add: layout single_file_same demo_sha_tampered demo_ed_sign)
qed

subsection \<open>Boot images: round trip\<close>

text \<open>
  Claim C6. Take any payload and any key pair \<open>sk\<close>, \<open>pk\<close> (a 32-byte public key whose
  check accepts what \<open>sign sk\<close> produces for the payload's digest, a 64-byte signature;
  the digest is 32 bytes). The file made of the magic \<open>HGAT\<close>, the signature of the
  digest, the digest and the payload is accepted, and the digest reported is the one
  computed from the payload.
\<close>

theorem verify_image_roundtrip:
  assumes "fromhex pubkey_hex = Inr pk" and "length pk = 32"
    and "length (sha payload) = 32"
    and "length (sign sk (sha payload)) = 64"
    and "ed pk (sha payload) (sign sk (sha payload))"
    and "fs image_path = Some (HGAT @ sign sk (sha payload) @ sha payload @ payload)"
  shows "verify_image ed sha fs pubkey_hex image_path out =
           (Inr True, out @ [ImageVerified image_path, PayloadSHA (hex (sha payload))])"
proof -
  let ?img = "HGAT @ sign sk (sha payload) @ sha payload @ payload"
  note layout = image_layout [OF assms(4) assms(3), of payload]
  have "verify_image ed sha fs pubkey_hex image_path out =
      (case fromhex pubkey_hex of
         Inl e \<Rightarrow> (Inl e, out)
       | Inr key \<Rightarrow>
           if length key \<noteq> 32 then (Inl NaClValueError, out)
           else if ed key (sha payload) (sign sk (sha payload))
             then (Inr True, out @ [ImageVerified image_path, PayloadSHA (hex (sha payload))])
             else (Inr False, out @ [ImageSigInvalid image_path]))"
    using verify_image_eq [where fs = fs and image_path = image_path and img = ?img,
        OF assms(6)]
    unfolding layout by simp
  with assms(1,2,5) show ?thesis by simp
qed

theorem verify_image_roundtrip_witness:
  "fromhex demo_key_hex = Inr demo_key \<and> length demo_key = 32
   \<and> length (demo_sha demo_payload) = 32
   \<and> length (demo_sign demo_key (demo_sha demo_payload)) = 64
   \<and> demo_ed demo_key (demo_sha demo_payload) (demo_sign demo_key (demo_sha demo_payload))
   \<and> single_file ''boot.img'' demo_image ''boot.img'' = Some demo_image
   \<and> verify_image demo_ed demo_sha (single_file ''boot.img'' demo_image) demo_key_hex
         ''boot.img'' [] =
       (Inr True, [ImageVerified ''boot.img'', PayloadSHA (hex (demo_sha demo_payload))])"
  using verify_image_roundtrip [where pubkey_hex = demo_key_hex and pk = demo_key
      and sha = demo_sha and payload = demo_payload and sign = demo_sign and sk = demo_key
      and ed = demo_ed and fs = "single_file ''boot.img'' demo_image"
      and image_path = "''boot.img''" and out = "[]"]
  by (simp add: fromhex_demo_key length_demo_key length_demo_sha length_demo_sign
      demo_ed_sign single_file_same demo_image_def)

subsection \<open>Boot images: a header with no payload\<close>

text \<open>
  Claim C10. For a file of exactly 100 bytes the payload is the empty byte string: the
  image is accepted if and only if the magic is \<open>HGAT\<close>, the stored hash is the digest of
  the empty string and the signature over that hash is valid under the given 32-byte
  key; the digest reported on success is the digest of the empty string.
\<close>

theorem verify_image_header_only:
  assumes "fs image_path = Some img" and "length img = 100"
  shows "(fst (verify_image ed sha fs pubkey_hex image_path out) = Inr True \<longleftrightarrow>
            take 4 img = HGAT \<and> py_slice img 68 100 = sha []
            \<and> (\<exists>key. fromhex pubkey_hex = Inr key \<and> length key = 32
                  \<and> ed key (sha []) (py_slice img 4 68)))
    \<and> (verify_image ed sha fs pubkey_hex image_path out =
          (Inr True, out @ [ImageVerified image_path, PayloadSHA (hex (sha []))]) \<longleftrightarrow>
        fst (verify_image ed sha fs pubkey_hex image_path out) = Inr True)"
  using assms
  by (cases "fromhex pubkey_hex") (auto simp: verify_image_eq [where img = img])

theorem verify_image_header_only_witness:
  "single_file ''boot.img'' header_only_image ''boot.img'' = Some header_only_image
   \<and> length header_only_image = 100
   \<and> take 4 header_only_image = HGAT
   \<and> py_slice header_only_image 68 100 = demo_sha []
   \<and> fromhex demo_key_hex = Inr demo_key \<and> length demo_key = 32
   \<and> demo_ed demo_key (demo_sha []) (py_slice header_only_image 4 68)
   \<and> fst (verify_image demo_ed demo_sha (single_file ''boot.img'' header_only_image)
         demo_key_hex ''boot.img'' []) = Inr True"
proof -
  have layout:
    "take 4 header_only_image = HGAT"
    "py_slice header_only_image 4 68 = demo_sign demo_key (demo_sha [])"
    "py_slice header_only_image 68 100 = demo_sha []"
    "length header_only_image = 100"
    using image_layout [OF length_demo_sign length_demo_sha, of demo_key "demo_sha []" "[]" "[]"]
    by (simp_all add: header_only_image_def)
  show ?thesis
    using verify_image_header_only [where fs = "single_file ''boot.img'' header_only_image"
        and image_path = "''boot.img''" and img = header_only_image and sha = demo_sha
        and ed = demo_ed and pubkey_hex = demo_key_hex and out = "[]"]
    by (simp add: layout single_file_same fromhex_demo_key length_demo_key demo_ed_sign)
qed

end
